theory Spec2Isabelle
  imports Complex_Main
begin

section \<open>Data model of the HIL simulator\<close>

text \<open>
  The simulator of \<^verbatim>\<open>hil_simulation_example.py\<close> works on numpy arrays of three
  floats. The embedding reads a float as a real number and a 3-array as a triple of
  reals; rounding is not modelled. The numpy operations used by the source are
  written out component by component.
\<close>

type_synonym vec3 = "real \<times> real \<times> real"

definition zeros3 :: vec3 where
  "zeros3 = (0, 0, 0)"

fun vadd :: "vec3 \<Rightarrow> vec3 \<Rightarrow> vec3" where
  "vadd (a1, a2, a3) (b1, b2, b3) = (a1 + b1, a2 + b2, a3 + b3)"

fun vsub :: "vec3 \<Rightarrow> vec3 \<Rightarrow> vec3" where
  "vsub (a1, a2, a3) (b1, b2, b3) = (a1 - b1, a2 - b2, a3 - b3)"

fun smul :: "real \<Rightarrow> vec3 \<Rightarrow> vec3" where
  "smul k (a1, a2, a3) = (k * a1, k * a2, k * a3)"

fun vmap :: "(real \<Rightarrow> real) \<Rightarrow> vec3 \<Rightarrow> vec3" where
  "vmap f (a1, a2, a3) = (f a1, f a2, f a3)"

text \<open>\<^verbatim>\<open>np.linalg.norm\<close> of a 3-array: the Euclidean norm.\<close>

fun linalg_norm :: "vec3 \<Rightarrow> real" where
  "linalg_norm (a1, a2, a3) = sqrt (a1 * a1 + a2 * a2 + a3 * a3)"

text \<open>
  \<^verbatim>\<open>np.arctan2(y, x)\<close> on reals: the angle of the point \<open>(x, y)\<close>, by quadrant,
  with \<open>arctan2 0 0 = 0\<close>.
\<close>

definition arctan2 :: "real \<Rightarrow> real \<Rightarrow> real" where
  "arctan2 y x =
     (if 0 < x then arctan (y / x)
      else if x < 0 \<and> 0 \<le> y then arctan (y / x) + pi
      else if x < 0 \<and> y < 0 then arctan (y / x) - pi
      else if 0 < y then pi / 2
      else if y < 0 then - (pi / 2)
      else 0)"

text \<open>The dictionary \<^verbatim>\<open>self.state\<close>, with its four fixed keys.\<close>

record spacecraft_state =
  position :: vec3
  velocity :: vec3
  attitude :: vec3
  angular_velocity :: vec3

text \<open>One entry of \<^verbatim>\<open>self.test_log\<close>, as \<^verbatim>\<open>log_data\<close> builds it.\<close>

record log_entry =
  log_time :: real
  log_position :: vec3
  log_velocity :: vec3
  position_error :: real
  velocity_error :: real
  thrust_magnitude :: real

text \<open>
  Every \<^verbatim>\<open>print\<close> of the class is one constructor, carrying the values the
  f-string formats.
\<close>

datatype out_line =
    Starting string
  | Duration real
  | UpdateRate real
  | Separator
  | WarningPosition real
  | WarningAltitude real
  | TestComplete nat
  | FinalStateHeader
  | FinalPosition vec3
  | FinalVelocity vec3
  | FinalPositionError real
  | FinalVelocityError real
  | StatisticsHeader
  | MeanPositionError real
  | MaxPositionError real
  | MeanVelocityError real
  | MaxVelocityError real

text \<open>
  The object \<^verbatim>\<open>HILSimulator\<close>: its four attributes, and the text written to
  standard output so far.
\<close>

record hil =
  dt :: real
  time :: real
  state :: spacecraft_state
  test_log :: "log_entry list"
  stdout :: "out_line list"

datatype py_error = ZeroDivisionError | IndexError | ValueError | MeanOfEmptySlice

text \<open>
  The draws of \<^verbatim>\<open>np.random.randn\<close> made by one call of
  \<^verbatim>\<open>generate_sensor_measurements\<close>, in the order of the calls: the standard
  normal samples before they are scaled.
\<close>

record noise =
  n_accel :: vec3
  n_gyro :: vec3
  n_star :: vec3
  n_range :: real
  n_camera :: vec3

definition zero_noise :: noise where
  "zero_noise = \<lparr>n_accel = zeros3, n_gyro = zeros3, n_star = zeros3, n_range = 0,
     n_camera = zeros3\<rparr>"

record sensor_data =
  imu_accel :: vec3
  imu_gyro :: vec3
  star_tracker :: vec3
  lidar_range :: real
  camera_position :: vec3

record commands =
  thrust :: vec3
  torque :: vec3

section \<open>Operations of HILSimulator\<close>

definition initial_state :: spacecraft_state where
  "initial_state = \<lparr>position = (2500, 200, -50), velocity = (0.1, -0.05, 0.02),
     attitude = (0, 0, 0), angular_velocity = (0, 0, 0)\<rparr>"

definition initialize_state :: "hil \<Rightarrow> hil" where
  "initialize_state s = s\<lparr>state := initial_state\<rparr>"

text \<open>
  The constructor sets \<^verbatim>\<open>dt\<close>, \<^verbatim>\<open>time = 0.0\<close>, an empty log, and calls
  \<^verbatim>\<open>initialize_state\<close>; the \<^verbatim>\<open>None\<close> it stores in \<^verbatim>\<open>state\<close> first is
  overwritten before anything reads it.
\<close>

definition HILSimulator :: "real \<Rightarrow> hil" where
  "HILSimulator d = initialize_state
     \<lparr>dt = d, time = 0, state = initial_state, test_log = [], stdout = []\<rparr>"

definition generate_sensor_measurements :: "noise \<Rightarrow> hil \<Rightarrow> sensor_data" where
  "generate_sensor_measurements n s =
     (let imu_accel = smul 0.0001 (n_accel n);
          imu_gyro = smul 0.000001 (n_gyro n);
          star_tracker_attitude = vadd (attitude (state s)) (smul 0.000001 (n_star n));
          true_range = linalg_norm (position (state s)) * 1000;
          lidar_range = true_range + n_range n * 0.1;
          camera_position = vadd (position (state s)) (smul 0.001 (n_camera n))
      in \<lparr>imu_accel = imu_accel, imu_gyro = imu_gyro,
           star_tracker = star_tracker_attitude, lidar_range = lidar_range,
           camera_position = camera_position\<rparr>)"

definition estimate_state :: "sensor_data \<Rightarrow> hil \<Rightarrow> spacecraft_state" where
  "estimate_state sd s =
     \<lparr>position = camera_position sd, velocity = velocity (state s),
      attitude = star_tracker sd, angular_velocity = angular_velocity (state s)\<rparr>"

definition compute_guidance :: "spacecraft_state \<Rightarrow> string \<Rightarrow> spacecraft_state" where
  "compute_guidance current_state scenario =
     (let (target_position, target_velocity) =
            (if scenario = ''RDV'' then ((20, 0, 0), (0, 0, 0))
             else if scenario = ''TAG'' then ((0, 0, 0), (0, 0, -0.0001))
             else (zeros3, zeros3))
      in \<lparr>position = target_position, velocity = target_velocity,
           attitude = zeros3, angular_velocity = zeros3\<rparr>)"

definition compute_control :: "spacecraft_state \<Rightarrow> spacecraft_state \<Rightarrow> commands" where
  "compute_control current_state desired_state =
     (let pos_error = vsub (position desired_state) (position current_state);
          vel_error = vsub (velocity desired_state) (velocity current_state);
          Kp_pos = 0.01;
          Kd_pos = 0.1;
          thrust_command = vadd (smul Kp_pos pos_error) (smul Kd_pos vel_error);
          att_error = vsub (attitude desired_state) (attitude current_state);
          ang_vel_error =
            vsub (angular_velocity desired_state) (angular_velocity current_state);
          Kp_att = 0.1;
          Kd_att = 0.05;
          torque_command = vadd (smul Kp_att att_error) (smul Kd_att ang_vel_error)
      in \<lparr>thrust = thrust_command, torque = torque_command\<rparr>)"

definition apply_actuator_commands :: "commands \<Rightarrow> hil \<Rightarrow> hil" where
  "apply_actuator_commands c s =
     (let st1 = (state s)\<lparr>velocity := vadd (velocity (state s)) (smul (dt s) (thrust c))\<rparr>;
          st2 = st1\<lparr>angular_velocity :=
                  vadd (angular_velocity st1) (smul (dt s) (torque c))\<rparr>
      in s\<lparr>state := st2\<rparr>)"

definition normalize_angle :: "real \<Rightarrow> real" where
  "normalize_angle a = arctan2 (sin a) (cos a)"

definition propagate_dynamics :: "hil \<Rightarrow> hil" where
  "propagate_dynamics s =
     (let st1 = (state s)\<lparr>position :=
                  vadd (position (state s)) (smul (dt s) (velocity (state s)))\<rparr>;
          st2 = st1\<lparr>attitude := vadd (attitude st1) (smul (dt s) (angular_velocity st1))\<rparr>;
          st3 = st2\<lparr>attitude := vmap normalize_angle (attitude st2)\<rparr>
      in s\<lparr>state := st3, time := time s + dt s\<rparr>)"

definition log_data ::
  "spacecraft_state \<Rightarrow> spacecraft_state \<Rightarrow> commands \<Rightarrow> sensor_data \<Rightarrow> hil \<Rightarrow> hil" where
  "log_data estimated_state desired_state c sd s =
     (let entry = \<lparr>log_time = time s,
            log_position = position (state s),
            log_velocity = velocity (state s),
            position_error =
              linalg_norm (vsub (position desired_state) (position estimated_state)),
            velocity_error =
              linalg_norm (vsub (velocity desired_state) (velocity estimated_state)),
            thrust_magnitude = linalg_norm (thrust c)\<rparr>
      in s\<lparr>test_log := test_log s @ [entry]\<rparr>)"

text \<open>
  \<^verbatim>\<open>check_success_criteria\<close> reads the state and the time and prints; the model
  returns its boolean together with the simulator, whose output has the warning added.
\<close>

definition check_success_criteria :: "string \<Rightarrow> hil \<Rightarrow> bool \<times> hil" where
  "check_success_criteria scenario s =
     (if scenario = ''RDV'' then
        (let pos_error = linalg_norm (vsub (position (state s)) (20, 0, 0))
         in if pos_error > 10 then (False, s\<lparr>stdout := stdout s @ [WarningPosition pos_error]\<rparr>)
            else (True, s))
      else if scenario = ''TAG'' then
        (let altitude = linalg_norm (position (state s))
         in if altitude > 0.1 \<and> time s > 50
            then (False, s\<lparr>stdout := stdout s @ [WarningAltitude altitude]\<rparr>)
            else (True, s))
      else (True, s))"

text \<open>
  The list operations of \<^verbatim>\<open>print_final_statistics\<close>. \<^verbatim>\<open>xs[-1]\<close> raises
  IndexError on an empty list and \<^verbatim>\<open>np.max\<close> raises ValueError on one;
  \<^verbatim>\<open>np.mean\<close> of an empty list is the not-a-number value, with a RuntimeWarning
  (mean of empty slice). All three are error values of the model, so that reaching
  any of them shows in the result.
\<close>

definition last_entry :: "'a list \<Rightarrow> py_error + 'a" where
  "last_entry xs = (if xs = [] then Inl IndexError else Inr (last xs))"

definition np_mean :: "real list \<Rightarrow> py_error + real" where
  "np_mean xs = (if xs = [] then Inl MeanOfEmptySlice
                 else Inr (sum_list xs / real (length xs)))"

definition np_max :: "real list \<Rightarrow> py_error + real" where
  "np_max xs = (case xs of [] \<Rightarrow> Inl ValueError | x # r \<Rightarrow> Inr (fold max r x))"

definition bind_err :: "py_error + 'a \<Rightarrow> ('a \<Rightarrow> py_error + 'b) \<Rightarrow> py_error + 'b" where
  "bind_err m f = (case m of Inl e \<Rightarrow> Inl e | Inr x \<Rightarrow> f x)"

definition print_final_statistics :: "hil \<Rightarrow> py_error + hil" where
  "print_final_statistics s =
     (if length (test_log s) = 0 then Inr s
      else
        bind_err (last_entry (test_log s)) (\<lambda>final_entry.
        let out1 = [FinalStateHeader,
                    FinalPosition (log_position final_entry),
                    FinalVelocity (velocity (state s)),
                    FinalPositionError (position_error final_entry),
                    FinalVelocityError (velocity_error final_entry)];
            pos_errors = map position_error (test_log s);
            vel_errors = map velocity_error (test_log s)
        in
        bind_err (np_mean pos_errors) (\<lambda>mean_pos.
        bind_err (np_max pos_errors) (\<lambda>max_pos.
        bind_err (np_mean vel_errors) (\<lambda>mean_vel.
        bind_err (np_max vel_errors) (\<lambda>max_vel.
        Inr (s\<lparr>stdout := stdout s @ out1 @
               [StatisticsHeader, MeanPositionError mean_pos, MaxPositionError max_pos,
                MeanVelocityError mean_vel, MaxVelocityError max_vel]\<rparr>)))))))"

text \<open>
  \<^verbatim>\<open>estimate_state\<close> stores the arrays \<^verbatim>\<open>self.state['velocity']\<close> and
  \<^verbatim>\<open>self.state['angular_velocity']\<close> themselves in its result, not copies, and
  \<^verbatim>\<open>apply_actuator_commands\<close> updates both arrays in place (\<^verbatim>\<open>+=\<close>). Whoever
  reads the estimate after that sees, under these two keys, the current arrays of
  the simulator \<open>s\<close>; the position and the attitude of the estimate are arrays of
  their own.
\<close>

definition shared_arrays :: "spacecraft_state \<Rightarrow> hil \<Rightarrow> spacecraft_state" where
  "shared_arrays estimated_state s =
     estimated_state\<lparr>velocity := velocity (state s),
       angular_velocity := angular_velocity (state s)\<rparr>"

text \<open>
  One pass through the body of the \<^verbatim>\<open>while\<close> loop of \<^verbatim>\<open>run_test_scenario\<close>,
  steps 1 to 8. Guidance and control read the estimate before the actuation;
  \<^verbatim>\<open>log_data\<close> reads it after the actuation and the propagation, through the shared
  arrays. The boolean of \<^verbatim>\<open>check_success_criteria\<close> is dropped, as the source
  drops it.
\<close>

definition tick :: "noise \<Rightarrow> string \<Rightarrow> nat \<Rightarrow> hil \<Rightarrow> hil" where
  "tick n scenario iteration s =
     (let sd = generate_sensor_measurements n s;
          estimated_state = estimate_state sd s;
          desired_state = compute_guidance estimated_state scenario;
          c = compute_control estimated_state desired_state;
          s1 = apply_actuator_commands c s;
          s2 = propagate_dynamics s1;
          s3 = log_data (shared_arrays estimated_state s2) desired_state c sd s2
      in if iteration mod 10 = 0 then snd (check_success_criteria scenario s3) else s3)"

text \<open>
  The loop \<^verbatim>\<open>while self.time < duration\<close>. It need not end (a timestep that is
  not positive never reaches the duration), so not returning is the value \<open>None\<close>.
  The random draws of iteration \<open>k\<close> are \<open>rnd k\<close>.
\<close>

partial_function (option) main_loop ::
  "(nat \<Rightarrow> noise) \<Rightarrow> string \<Rightarrow> real \<Rightarrow> nat \<Rightarrow> hil \<Rightarrow> (nat \<times> hil) option" where
  "main_loop rnd scenario duration iteration s =
     (if time s < duration
      then main_loop rnd scenario duration (iteration + 1)
             (tick (rnd iteration) scenario iteration s)
      else Some (iteration, s))"

text \<open>
  \<^verbatim>\<open>run_test_scenario\<close>: the banner (whose third line divides by \<^verbatim>\<open>self.dt\<close>),
  the initialisation, the loop, and the final report.
\<close>

definition run_test_scenario ::
  "(nat \<Rightarrow> noise) \<Rightarrow> string \<Rightarrow> real \<Rightarrow> hil \<Rightarrow> (py_error + hil) option" where
  "run_test_scenario rnd scenario duration s =
     (if dt s = 0 then Some (Inl ZeroDivisionError)
      else
        let s1 = s\<lparr>stdout := stdout s @
                   [Starting scenario, Duration duration, UpdateRate (1 / dt s), Separator]\<rparr>;
            s2 = initialize_state s1;
            s3 = s2\<lparr>test_log := []\<rparr>
        in case main_loop rnd scenario duration 0 s3 of
             None \<Rightarrow> None
           | Some (iteration, s4) \<Rightarrow>
               Some (print_final_statistics
                 (s4\<lparr>stdout := stdout s4 @ [Separator, TestComplete iteration]\<rparr>)))"

section \<open>The placeholder modules\<close>

text \<open>
  The five stub classes. An argument is any Python value; \<open>None\<close> of the option type
  is Python's \<^verbatim>\<open>None\<close>.
\<close>

definition MissionParameters_calculate :: "'a option \<Rightarrow> 'a option" where
  "MissionParameters_calculate input_data = input_data"

definition MissionParameters_validate :: "'a option \<Rightarrow> bool" where
  "MissionParameters_validate data = (data \<noteq> None)"

definition OrbitalMechanics_calculate :: "'a option \<Rightarrow> 'a option" where
  "OrbitalMechanics_calculate input_data = input_data"

definition OrbitalMechanics_validate :: "'a option \<Rightarrow> bool" where
  "OrbitalMechanics_validate data = (data \<noteq> None)"

definition TrajectoryOptimizer_calculate :: "'a option \<Rightarrow> 'a option" where
  "TrajectoryOptimizer_calculate input_data = input_data"

definition TrajectoryOptimizer_validate :: "'a option \<Rightarrow> bool" where
  "TrajectoryOptimizer_validate data = (data \<noteq> None)"

definition DataProcessing_calculate :: "'a option \<Rightarrow> 'a option" where
  "DataProcessing_calculate input_data = input_data"

definition DataProcessing_validate :: "'a option \<Rightarrow> bool" where
  "DataProcessing_validate data = (data \<noteq> None)"

definition VisualizationTools_calculate :: "'a option \<Rightarrow> 'a option" where
  "VisualizationTools_calculate input_data = input_data"

definition VisualizationTools_validate :: "'a option \<Rightarrow> bool" where
  "VisualizationTools_validate data = (data \<noteq> None)"

section \<open>Test states\<close>

text \<open>A fresh simulator with timestep 0.1 whose spacecraft sits at the position \<open>p\<close>.\<close>

definition at_position :: "vec3 \<Rightarrow> hil" where
  "at_position p = (HILSimulator 0.1)\<lparr>state := initial_state\<lparr>position := p\<rparr>\<rparr>"

text \<open>A simulator whose spacecraft rotates about its first axis.\<close>

definition spinning :: hil where
  "spinning = (HILSimulator 0.1)\<lparr>state := initial_state\<lparr>angular_velocity := (1, 0, 0)\<rparr>\<rparr>"

text \<open>A simulator with timestep 0.5 after a run of one second: its clock reads 1.\<close>

definition after_run :: hil where
  "after_run = (HILSimulator 0.5)\<lparr>time := 1\<rparr>"

text \<open>Two estimated states, the second three times the first, and the all-zero target.\<close>

definition est_small :: spacecraft_state where
  "est_small = \<lparr>position = (1, 2, 3), velocity = (4, 5, 6), attitude = (1, 0, 2),
     angular_velocity = (0, 1, 0)\<rparr>"

definition est_large :: spacecraft_state where
  "est_large = \<lparr>position = (3, 6, 9), velocity = (12, 15, 18), attitude = (3, 0, 6),
     angular_velocity = (0, 3, 0)\<rparr>"

definition zero_target :: spacecraft_state where
  "zero_target = \<lparr>position = (0, 0, 0), velocity = (0, 0, 0), attitude = (0, 0, 0),
     angular_velocity = (0, 0, 0)\<rparr>"

section \<open>Auxiliary facts\<close>

lemma linalg_norm_axis: "linalg_norm (a, 0, 0) = \<bar>a\<bar>"
  by simp

subsection \<open>The quadrant arctangent\<close>

lemma arctan2_range: "- pi < arctan2 y x \<and> arctan2 y x \<le> pi"
proof -
  have b: "- (pi / 2) < arctan (y / x)" "arctan (y / x) < pi / 2"
    by (rule arctan_lbound, rule arctan_ubound)
  consider "0 < x" | "x < 0" "0 \<le> y" | "x < 0" "y < 0" | "x = 0" "0 < y" | "x = 0" "y < 0"
    | "x = 0" "y = 0"
    by linarith
  then show "- pi < arctan2 y x \<and> arctan2 y x \<le> pi"
  proof cases
    case 1
    then have v: "arctan2 y x = arctan (y / x)" by (simp add: arctan2_def)
    show ?thesis unfolding v using b pi_gt_zero by - (rule conjI; linarith)
  next
    case 2
    then have "y / x \<le> 0" by (simp add: divide_nonneg_neg)
    then have le: "arctan (y / x) \<le> 0" by simp
    from 2 have v: "arctan2 y x = arctan (y / x) + pi" by (simp add: arctan2_def)
    show ?thesis unfolding v using b le pi_gt_zero by - (rule conjI; linarith)
  next
    case 3
    then have "0 < y / x" by (simp add: divide_neg_neg)
    then have gt: "0 < arctan (y / x)" by simp
    from 3 have v: "arctan2 y x = arctan (y / x) - pi" by (simp add: arctan2_def)
    show ?thesis unfolding v using b gt pi_gt_zero by - (rule conjI; linarith)
  next
    case 4
    then have v: "arctan2 y x = pi / 2" by (simp add: arctan2_def)
    show ?thesis unfolding v using pi_gt_zero by - (rule conjI; linarith)
  next
    case 5
    then have v: "arctan2 y x = - (pi / 2)" by (simp add: arctan2_def)
    show ?thesis unfolding v using pi_gt_zero by - (rule conjI; linarith)
  next
    case 6
    then have v: "arctan2 y x = 0" by (simp add: arctan2_def)
    show ?thesis unfolding v using pi_gt_zero by - (rule conjI; linarith)
  qed
qed

text \<open>
  An angle of the half-open interval is returned as it is: by the five parts of the
  interval on which the signs of sine and cosine are fixed.
\<close>

lemma normalize_fixed:
  assumes "- pi < a" "a \<le> pi"
  shows "normalize_angle a = a"
proof -
  consider "- pi < a" "a < - (pi / 2)" | "a = - (pi / 2)" | "- (pi / 2) < a" "a < pi / 2"
    | "a = pi / 2" | "pi / 2 < a" "a \<le> pi"
    using assms by linarith
  then show ?thesis
  proof cases
    case 1
    then have c: "cos a < 0"
      using cos_gt_zero_pi [of "a + pi"] by simp
    from 1 have s: "sin a < 0"
      using sin_gt_zero [of "a + pi"] by simp
    have "arctan (tan (a + pi)) = a + pi"
      using 1 by (intro arctan_tan) simp_all
    then have "arctan (sin a / cos a) = a + pi"
      by (simp add: tan_def)
    with c s show ?thesis
      by (simp add: normalize_angle_def arctan2_def)
  next
    case 2
    have "normalize_angle (- (pi / 2)) = - (pi / 2)"
      by (simp add: normalize_angle_def arctan2_def)
    with 2 show ?thesis by (simp only:)
  next
    case 3
    then have c: "0 < cos a" by (rule cos_gt_zero_pi)
    have "arctan (tan a) = a" using 3 by (rule arctan_tan)
    with c show ?thesis
      by (simp add: normalize_angle_def arctan2_def tan_def)
  next
    case 4
    have "normalize_angle (pi / 2) = pi / 2"
      by (simp add: normalize_angle_def arctan2_def)
    with 4 show ?thesis by (simp only:)
  next
    case 5
    then have c: "cos a < 0"
      using cos_gt_zero_pi [of "a - pi"] by simp
    from 5 have s: "0 \<le> sin a"
      by (intro sin_ge_zero) (use pi_gt_zero in linarith)+
    have "arctan (tan (a - pi)) = a - pi"
      using 5 by (intro arctan_tan) simp_all
    moreover have "tan (a - pi) = tan a"
      using tan_periodic_pi [of "a - pi"] by simp
    ultimately have "arctan (sin a / cos a) = a - pi"
      by (simp add: tan_def)
    with c s show ?thesis
      by (simp add: normalize_angle_def arctan2_def)
  qed
qed

subsection \<open>One integration step\<close>

lemma propagate_time: "time (propagate_dynamics s) = time s + dt s"
  by (simp add: propagate_dynamics_def Let_def)

lemma propagate_dt: "dt (propagate_dynamics s) = dt s"
  by (simp add: propagate_dynamics_def Let_def)

lemma propagate_velocity: "velocity (state (propagate_dynamics s)) = velocity (state s)"
  by (simp add: propagate_dynamics_def Let_def)

lemma propagate_position:
  "position (state (propagate_dynamics s)) =
     vadd (position (state s)) (smul (dt s) (velocity (state s)))"
  by (simp add: propagate_dynamics_def Let_def)

lemma propagate_iter:
  "dt ((propagate_dynamics ^^ n) s) = dt s \<and>
   velocity (state ((propagate_dynamics ^^ n) s)) = velocity (state s) \<and>
   time ((propagate_dynamics ^^ n) s) = time s + real n * dt s \<and>
   position (state ((propagate_dynamics ^^ n) s)) =
     vadd (position (state s)) (smul (real n * dt s) (velocity (state s)))"
proof (induction n)
  case 0
  show ?case by (cases "position (state s)"; cases "velocity (state s)") simp
next
  case (Suc n)
  then show ?case
    by (cases "position (state s)"; cases "velocity (state s)")
       (simp add: propagate_time propagate_dt propagate_velocity propagate_position
          algebra_simps)
qed

subsection \<open>The final report\<close>

lemma np_max_nonempty: "xs \<noteq> [] \<Longrightarrow> \<exists>m. np_max xs = Inr m"
  by (cases xs) (simp_all add: np_max_def)

lemma np_mean_nonempty: "xs \<noteq> [] \<Longrightarrow> \<exists>m. np_mean xs = Inr m"
  by (simp add: np_mean_def)

lemma print_final_statistics_returns:
  "\<exists>s'. print_final_statistics s = Inr s' \<and> dt s' = dt s \<and> time s' = time s \<and>
        state s' = state s \<and> test_log s' = test_log s"
proof (cases "test_log s = []")
  case True
  then show ?thesis by (simp add: print_final_statistics_def)
next
  case False
  then obtain mp xp mv xv where
    "np_mean (map position_error (test_log s)) = Inr mp"
    "np_max (map position_error (test_log s)) = Inr xp"
    "np_mean (map velocity_error (test_log s)) = Inr mv"
    "np_max (map velocity_error (test_log s)) = Inr xv"
    using np_mean_nonempty [of "map position_error (test_log s)"]
      np_max_nonempty [of "map position_error (test_log s)"]
      np_mean_nonempty [of "map velocity_error (test_log s)"]
      np_max_nonempty [of "map velocity_error (test_log s)"]
    by auto
  with False show ?thesis
    by (simp add: print_final_statistics_def last_entry_def bind_err_def Let_def)
qed

subsection \<open>The driver loop\<close>

lemma check_keeps:
  "dt (snd (check_success_criteria scenario s)) = dt s"
  "time (snd (check_success_criteria scenario s)) = time s"
  "state (snd (check_success_criteria scenario s)) = state s"
  "test_log (snd (check_success_criteria scenario s)) = test_log s"
  by (simp_all add: check_success_criteria_def Let_def)

lemma tick_dt: "dt (tick n scenario i s) = dt s"
  by (simp add: tick_def Let_def check_keeps log_data_def propagate_dynamics_def
      apply_actuator_commands_def)

lemma tick_time: "time (tick n scenario i s) = time s + dt s"
  by (simp add: tick_def Let_def check_keeps log_data_def propagate_dynamics_def
      apply_actuator_commands_def)

lemma tick_log: "length (test_log (tick n scenario i s)) = Suc (length (test_log s))"
  by (simp add: tick_def Let_def check_keeps log_data_def propagate_dynamics_def
      apply_actuator_commands_def)

text \<open>
  The velocity error of a log record is taken after the actuation: on the first RDV
  tick of a fresh simulator the velocity has become \<open>(-2.381, -0.2495, 0.0698)\<close>.
\<close>

lemma tick_logs_shared_velocity:
  "velocity_error (last (test_log (tick zero_noise ''RDV'' 0 (HILSimulator 0.1)))) =
     linalg_norm (2.381, 0.2495, -0.0698)"
  by (simp add: tick_def Let_def check_keeps log_data_def propagate_dynamics_def
      apply_actuator_commands_def shared_arrays_def compute_control_def
      compute_guidance_def estimate_state_def generate_sensor_measurements_def
      zero_noise_def zeros3_def HILSimulator_def initialize_state_def initial_state_def)

text \<open>The number of ticks still to run, \<open>\<lceil>(x - t) / d\<rceil>\<close>, falls by one with each tick.\<close>

lemma ticks_Suc:
  fixes d x t :: real
  assumes "0 < d" "nat \<lceil>(x - t) / d\<rceil> = Suc k"
  shows "t < x" "nat \<lceil>(x - (t + d)) / d\<rceil> = k"
proof -
  from assms(2) have "0 < \<lceil>(x - t) / d\<rceil>" by linarith
  then have "0 < (x - t) / d" by (simp add: ceiling_less_iff)
  with assms(1) show "t < x" by (simp add: zero_less_divide_iff)
  have "(x - (t + d)) / d = (x - t) / d - 1"
    using assms(1) by (simp add: field_simps)
  then have "\<lceil>(x - (t + d)) / d\<rceil> = \<lceil>(x - t) / d\<rceil> - 1" by simp
  with assms(2) show "nat \<lceil>(x - (t + d)) / d\<rceil> = k" by linarith
qed

lemma ticks_0:
  fixes d x t :: real
  assumes "0 < d" "nat \<lceil>(x - t) / d\<rceil> = 0"
  shows "x \<le> t"
proof -
  from assms(2) have "\<lceil>(x - t) / d\<rceil> \<le> 0" by linarith
  then have "(x - t) / d \<le> 0" by (simp add: ceiling_le_iff)
  with assms(1) show ?thesis by (simp add: divide_le_0_iff)
qed

text \<open>
  In real arithmetic, with a positive timestep, the loop returns, after that many
  ticks.
\<close>

lemma main_loop_runs:
  "0 < dt s \<Longrightarrow> nat \<lceil>(duration - time s) / dt s\<rceil> = k \<Longrightarrow>
   \<exists>s'. main_loop rnd scenario duration i s = Some (i + k, s') \<and>
        duration \<le> time s' \<and> time s' = time s + real k * dt s \<and> dt s' = dt s \<and>
        length (test_log s') = length (test_log s) + k"
proof (induction k arbitrary: s i)
  case 0
  then have "duration \<le> time s" by (intro ticks_0)
  then show ?case by (subst main_loop.simps) simp
next
  case (Suc k)
  let ?s1 = "tick (rnd i) scenario i s"
  from Suc.prems have lt: "time s < duration"
    and k: "nat \<lceil>(duration - (time s + dt s)) / dt s\<rceil> = k"
    by (rule ticks_Suc)+
  from Suc.prems k have "0 < dt ?s1" "nat \<lceil>(duration - time ?s1) / dt ?s1\<rceil> = k"
    by (simp_all add: tick_dt tick_time)
  from Suc.IH [OF this, of "i + 1"] obtain s' where
    s': "main_loop rnd scenario duration (i + 1) ?s1 = Some (i + 1 + k, s')"
      "duration \<le> time s'" "time s' = time ?s1 + real k * dt ?s1" "dt s' = dt ?s1"
      "length (test_log s') = length (test_log ?s1) + k"
    by blast
  from lt s'(1) have "main_loop rnd scenario duration i s = Some (i + Suc k, s')"
    by (subst main_loop.simps) simp
  moreover from s'(3) have "time s' = time s + real (Suc k) * dt s"
    by (simp add: tick_dt tick_time algebra_simps)
  ultimately show ?case
    using s'(2,4,5) by (simp add: tick_dt tick_log)
qed

text \<open>
  Whatever the timestep, the loop returns only once the duration is reached, and it
  has then written one log record for each tick it counted.
\<close>

lemma main_loop_exit:
  assumes "main_loop rnd scenario duration i s = Some y"
  shows "duration \<le> time (snd y) \<and> i \<le> fst y \<and>
    length (test_log (snd y)) = length (test_log s) + (fst y - i)"
proof (rule main_loop.raw_induct
    [where P = "\<lambda>rnd scenario duration i s y. duration \<le> time (snd y) \<and> i \<le> fst y \<and>
       length (test_log (snd y)) = length (test_log s) + (fst y - i)", OF _ assms])
  fix f :: "(nat \<Rightarrow> noise) \<Rightarrow> string \<Rightarrow> real \<Rightarrow> nat \<Rightarrow> hil \<Rightarrow> (nat \<times> hil) option"
  fix rnd scenario duration i s y
  assume IH: "\<And>rnd scenario duration i s y. f rnd scenario duration i s = Some y \<Longrightarrow>
      duration \<le> time (snd y) \<and> i \<le> fst y \<and>
      length (test_log (snd y)) = length (test_log s) + (fst y - i)"
    and body: "(if time s < duration
        then f rnd scenario duration (i + 1) (tick (rnd i) scenario i s)
        else Some (i, s)) = Some y"
  show "duration \<le> time (snd y) \<and> i \<le> fst y \<and>
      length (test_log (snd y)) = length (test_log s) + (fst y - i)"
  proof (cases "time s < duration")
    case True
    with body have "f rnd scenario duration (i + 1) (tick (rnd i) scenario i s) = Some y"
      by simp
    from IH [OF this] show ?thesis
      by (auto simp add: tick_log)
  next
    case False
    with body show ?thesis by auto
  qed
qed

section \<open>The claims\<close>

text \<open>
  C1. The claim: every scenario run, and every call of the reset operation, returns the
  simulation to the initial conditions and to time 0, whatever the simulator's prior
  state. \<^verbatim>\<open>initialize_state\<close> writes the four state vectors only, and
  \<^verbatim>\<open>run_test_scenario\<close> adds the clearing of the log: the clock is set to 0 by
  the constructor alone. On a simulator whose clock already reads 1, the reset leaves
  the clock at 1, and a run of duration 1 performs no tick at all: it returns with an
  empty log and the clock still at 1.
\<close>

theorem run_test_scenario_keeps_time:
  "time (initialize_state after_run) = 1 \<and>
   state (initialize_state after_run) = initial_state \<and>
   run_test_scenario (\<lambda>k. zero_noise) ''TAG'' 1 after_run =
     Some (Inr (after_run\<lparr>stdout :=
       [Starting ''TAG'', Duration 1, UpdateRate 2, Separator, Separator, TestComplete 0]\<rparr>))"
  by (simp add: after_run_def run_test_scenario_def initialize_state_def HILSimulator_def
      main_loop.simps print_final_statistics_def)

text \<open>
  C2. The claim: every field of the sensor reading is the corresponding true-state
  quantity plus its scaled noise term, so that with zero noise each channel equals the
  true quantity. It fails for the gyroscope channel: on a spacecraft that rotates with
  angular velocity \<open>(1, 0, 0)\<close> the zero-noise gyroscope reading is the zero vector.
\<close>

theorem sensor_gyro_counterexample:
  "imu_gyro (generate_sensor_measurements zero_noise spinning)
     \<noteq> angular_velocity (state spinning)"
  by (simp add: generate_sensor_measurements_def zero_noise_def zeros3_def spinning_def
      HILSimulator_def initialize_state_def initial_state_def Let_def)

text \<open>
  C2, as amended. The star tracker reading is the true attitude plus noise scaled by
  1e-6, the range is 1000 times the Euclidean norm of the true position plus noise
  scaled by 0.1, and the relative position is the true position plus noise scaled by
  0.001; the two IMU channels are their noise terms alone, scaled by 1e-4 and 1e-6.
  With zero noise the first three channels equal the true quantities and the IMU
  channels are zero.
\<close>

theorem sensor_channels:
  "imu_accel (generate_sensor_measurements n s) = smul 0.0001 (n_accel n) \<and>
   imu_gyro (generate_sensor_measurements n s) = smul 0.000001 (n_gyro n) \<and>
   star_tracker (generate_sensor_measurements n s) =
     vadd (attitude (state s)) (smul 0.000001 (n_star n)) \<and>
   lidar_range (generate_sensor_measurements n s) =
     linalg_norm (position (state s)) * 1000 + 0.1 * n_range n \<and>
   camera_position (generate_sensor_measurements n s) =
     vadd (position (state s)) (smul 0.001 (n_camera n)) \<and>
   imu_accel (generate_sensor_measurements zero_noise s) = zeros3 \<and>
   imu_gyro (generate_sensor_measurements zero_noise s) = zeros3 \<and>
   star_tracker (generate_sensor_measurements zero_noise s) = attitude (state s) \<and>
   lidar_range (generate_sensor_measurements zero_noise s) =
     linalg_norm (position (state s)) * 1000 \<and>
   camera_position (generate_sensor_measurements zero_noise s) = position (state s)"
  by (cases "attitude (state s)"; cases "position (state s)")
     (simp add: generate_sensor_measurements_def zero_noise_def zeros3_def Let_def)

text \<open>
  C3. The attitude wrapping \<open>a \<mapsto> arctan2 (sin a) (cos a)\<close> is range-preserving and
  idempotent: for every real \<open>a\<close> the result lies in \<open>(-\<pi>, \<pi>]\<close>, a value already
  in that interval is returned unchanged, and wrapping twice is wrapping once.
\<close>

theorem normalize_angle_wraps:
  "- pi < normalize_angle a \<and> normalize_angle a \<le> pi \<and>
   (- pi < a \<and> a \<le> pi \<longrightarrow> normalize_angle a = a) \<and>
   normalize_angle (normalize_angle a) = normalize_angle a"
  using arctan2_range [of "sin a" "cos a"] normalize_fixed [of a]
    normalize_fixed [of "normalize_angle a"]
  by (simp add: normalize_angle_def)

theorem normalize_angle_wraps_witness:
  "- pi < (0::real) \<and> (0::real) \<le> pi \<and> normalize_angle 0 = 0 \<and>
   - pi < pi \<and> normalize_angle pi = pi"
  using normalize_angle_wraps [of 0] normalize_angle_wraps [of pi] pi_gt_zero by simp

text \<open>
  C4. For scenario RDV the check returns true, printing nothing, whenever the true
  position is at most 10 km from \<open>(20, 0, 0)\<close>, the distance 10 included; beyond
  10 km it returns false and prints the position warning.
\<close>

theorem rdv_check_threshold:
  "(linalg_norm (vsub (position (state s)) (20, 0, 0)) \<le> 10 \<longrightarrow>
      check_success_criteria ''RDV'' s = (True, s)) \<and>
   (linalg_norm (vsub (position (state s)) (20, 0, 0)) > 10 \<longrightarrow>
      check_success_criteria ''RDV'' s =
        (False, s\<lparr>stdout := stdout s @
           [WarningPosition (linalg_norm (vsub (position (state s)) (20, 0, 0)))]\<rparr>))"
  by (simp add: check_success_criteria_def Let_def)

theorem rdv_check_threshold_witness:
  "linalg_norm (vsub (position (state (at_position (30, 0, 0)))) (20, 0, 0)) \<le> 10 \<and>
   check_success_criteria ''RDV'' (at_position (30, 0, 0)) = (True, at_position (30, 0, 0)) \<and>
   linalg_norm (vsub (position (state (at_position (30.0001, 0, 0)))) (20, 0, 0)) > 10 \<and>
   check_success_criteria ''RDV'' (at_position (30.0001, 0, 0)) =
     (False, (at_position (30.0001, 0, 0))\<lparr>stdout := [WarningPosition 10.0001]\<rparr>)"
  using rdv_check_threshold [of "at_position (30, 0, 0)"]
    rdv_check_threshold [of "at_position (30.0001, 0, 0)"]
  by (simp add: at_position_def HILSimulator_def initialize_state_def linalg_norm_axis
      del: linalg_norm.simps)

text \<open>
  C5. The guidance law returns, for RDV, the desired position \<open>(20, 0, 0)\<close> and the
  desired velocity zero; for TAG, the desired position zero and the desired velocity
  \<open>(0, 0, -0.0001)\<close>; for any other scenario identifier, zero for both. The desired
  attitude and angular velocity are always zero, and the result is the same for every
  estimated state.
\<close>

theorem guidance_dispatch:
  "(scenario = ''RDV'' \<longrightarrow>
      position (compute_guidance est scenario) = (20, 0, 0) \<and>
      velocity (compute_guidance est scenario) = (0, 0, 0)) \<and>
   (scenario = ''TAG'' \<longrightarrow>
      position (compute_guidance est scenario) = (0, 0, 0) \<and>
      velocity (compute_guidance est scenario) = (0, 0, -0.0001)) \<and>
   (scenario \<noteq> ''RDV'' \<and> scenario \<noteq> ''TAG'' \<longrightarrow>
      position (compute_guidance est scenario) = (0, 0, 0) \<and>
      velocity (compute_guidance est scenario) = (0, 0, 0)) \<and>
   attitude (compute_guidance est scenario) = (0, 0, 0) \<and>
   angular_velocity (compute_guidance est scenario) = (0, 0, 0) \<and>
   compute_guidance est scenario = compute_guidance est' scenario"
  by (simp add: compute_guidance_def zeros3_def)

theorem guidance_dispatch_witness:
  "position (compute_guidance initial_state ''RDV'') = (20, 0, 0) \<and>
   velocity (compute_guidance initial_state ''RDV'') = (0, 0, 0) \<and>
   position (compute_guidance initial_state ''TAG'') = (0, 0, 0) \<and>
   velocity (compute_guidance initial_state ''TAG'') = (0, 0, -0.0001) \<and>
   ''XYZ'' \<noteq> ''RDV'' \<and> ''XYZ'' \<noteq> ''TAG'' \<and>
   position (compute_guidance initial_state ''XYZ'') = (0, 0, 0) \<and>
   velocity (compute_guidance initial_state ''XYZ'') = (0, 0, 0)"
  using guidance_dispatch [of "''RDV''" initial_state]
    guidance_dispatch [of "''TAG''" initial_state]
    guidance_dispatch [of "''XYZ''" initial_state]
  by simp

text \<open>
  C6. The control law is linear in the errors: the thrust is 0.01 times the position
  error plus 0.1 times the velocity error, the torque is 0.1 times the attitude error
  plus 0.05 times the angular-velocity error, and a pair of states whose position and
  velocity errors (attitude and angular-velocity errors) are \<open>k\<close> times those of
  another pair gets \<open>k\<close> times its thrust (torque).
\<close>

theorem control_linear:
  "thrust (compute_control cur des) =
     vadd (smul 0.01 (vsub (position des) (position cur)))
          (smul 0.1 (vsub (velocity des) (velocity cur))) \<and>
   torque (compute_control cur des) =
     vadd (smul 0.1 (vsub (attitude des) (attitude cur)))
          (smul 0.05 (vsub (angular_velocity des) (angular_velocity cur))) \<and>
   (vsub (position des') (position cur') = smul k (vsub (position des) (position cur)) \<and>
    vsub (velocity des') (velocity cur') = smul k (vsub (velocity des) (velocity cur)) \<longrightarrow>
      thrust (compute_control cur' des') = smul k (thrust (compute_control cur des))) \<and>
   (vsub (attitude des') (attitude cur') = smul k (vsub (attitude des) (attitude cur)) \<and>
    vsub (angular_velocity des') (angular_velocity cur') =
      smul k (vsub (angular_velocity des) (angular_velocity cur)) \<longrightarrow>
      torque (compute_control cur' des') = smul k (torque (compute_control cur des)))"
proof -
  have lin: "vadd (smul a (smul k u)) (smul b (smul k v)) = smul k (vadd (smul a u) (smul b v))"
    for a b k :: real and u v :: vec3
    by (cases u; cases v) (simp add: algebra_simps)
  show ?thesis
    by (simp add: compute_control_def Let_def lin)
qed

theorem control_linear_witness:
  "vsub (position zero_target) (position est_large) =
     smul 3 (vsub (position zero_target) (position est_small)) \<and>
   vsub (velocity zero_target) (velocity est_large) =
     smul 3 (vsub (velocity zero_target) (velocity est_small)) \<and>
   vsub (attitude zero_target) (attitude est_large) =
     smul 3 (vsub (attitude zero_target) (attitude est_small)) \<and>
   vsub (angular_velocity zero_target) (angular_velocity est_large) =
     smul 3 (vsub (angular_velocity zero_target) (angular_velocity est_small)) \<and>
   thrust (compute_control est_small zero_target) = (-0.41, -0.52, -0.63) \<and>
   thrust (compute_control est_large zero_target) = (-1.23, -1.56, -1.89) \<and>
   torque (compute_control est_small zero_target) = (-0.1, -0.05, -0.2) \<and>
   torque (compute_control est_large zero_target) = (-0.3, -0.15, -0.6)"
  using control_linear [of est_small zero_target zero_target est_large 3]
  by (simp add: est_small_def est_large_def zero_target_def)

text \<open>
  C7. For a positive timestep, one integration step advances the time by exactly
  \<open>dt\<close> and the position by velocity times \<open>dt\<close>, and leaves the velocity as it
  is; \<open>n\<close> steps in a row advance the time by \<open>n * dt\<close> and the position by
  \<open>n * dt\<close> times the velocity.
\<close>

theorem propagate_dynamics_euler:
  "0 < dt s \<Longrightarrow>
   time (propagate_dynamics s) = time s + dt s \<and>
   position (state (propagate_dynamics s)) =
     vadd (position (state s)) (smul (dt s) (velocity (state s))) \<and>
   velocity (state (propagate_dynamics s)) = velocity (state s) \<and>
   time ((propagate_dynamics ^^ n) s) = time s + real n * dt s \<and>
   position (state ((propagate_dynamics ^^ n) s)) =
     vadd (position (state s)) (smul (real n * dt s) (velocity (state s)))"
  by (simp add: propagate_time propagate_velocity propagate_position propagate_iter)

theorem propagate_dynamics_euler_witness:
  "0 < dt (HILSimulator 0.1) \<and>
   time (propagate_dynamics (HILSimulator 0.1)) = 0.1 \<and>
   position (state (propagate_dynamics (HILSimulator 0.1))) = (2500.01, 199.995, -49.998) \<and>
   time ((propagate_dynamics ^^ 1000) (HILSimulator 0.1)) = 100 \<and>
   position (state ((propagate_dynamics ^^ 1000) (HILSimulator 0.1))) = (2510, 195, -48)"
  using propagate_dynamics_euler [of "HILSimulator 0.1" 1000]
  by (simp add: HILSimulator_def initialize_state_def initial_state_def)

text \<open>
  C8. The check never halts the run. It leaves the timestep, the time, the state and
  the log as they are (it only prints). While the time is below the duration the loop
  goes on with the next tick, whatever the check of this tick returned. The loop
  returns only with the time at or beyond the duration, having written one log record
  per tick. With a positive timestep the loop does return, and the whole scenario run
  returns without error, with the time at or beyond the duration.
\<close>

theorem check_never_halts:
  "dt (snd (check_success_criteria scenario s)) = dt s \<and>
   time (snd (check_success_criteria scenario s)) = time s \<and>
   state (snd (check_success_criteria scenario s)) = state s \<and>
   test_log (snd (check_success_criteria scenario s)) = test_log s \<and>
   (time s < duration \<longrightarrow>
      main_loop rnd scenario duration i s =
        main_loop rnd scenario duration (i + 1) (tick (rnd i) scenario i s)) \<and>
   (\<forall>y. main_loop rnd scenario duration i s = Some y \<longrightarrow>
      duration \<le> time (snd y) \<and> i \<le> fst y \<and>
      length (test_log (snd y)) = length (test_log s) + (fst y - i)) \<and>
   (0 < dt s \<longrightarrow>
     (\<exists>y. main_loop rnd scenario duration i s = Some y) \<and>
     (\<exists>s'. run_test_scenario rnd scenario duration s = Some (Inr s') \<and>
            duration \<le> time s'))"
proof -
  let ?k = "nat \<lceil>(duration - time s) / dt s\<rceil>"
  let ?s3 = "(initialize_state (s\<lparr>stdout := stdout s @
       [Starting scenario, Duration duration, UpdateRate (1 / dt s), Separator]\<rparr>))
       \<lparr>test_log := []\<rparr>"
  have s3: "dt ?s3 = dt s" "time ?s3 = time s"
    by (simp_all add: initialize_state_def)
  have step: "time s < duration \<longrightarrow>
      main_loop rnd scenario duration i s =
        main_loop rnd scenario duration (i + 1) (tick (rnd i) scenario i s)"
    by (subst main_loop.simps) simp
  have exit: "\<forall>y. main_loop rnd scenario duration i s = Some y \<longrightarrow>
      duration \<le> time (snd y) \<and> i \<le> fst y \<and>
      length (test_log (snd y)) = length (test_log s) + (fst y - i)"
    by (blast dest: main_loop_exit)
  have runs: "(\<exists>y. main_loop rnd scenario duration i s = Some y) \<and>
     (\<exists>s'. run_test_scenario rnd scenario duration s = Some (Inr s') \<and>
            duration \<le> time s')"
    if pos: "0 < dt s"
  proof -
    from pos obtain s1 where "main_loop rnd scenario duration i s = Some (i + ?k, s1)"
      using main_loop_runs [of s duration ?k rnd scenario i] by auto
    then have returns: "\<exists>y. main_loop rnd scenario duration i s = Some y" by blast
    from pos s3 obtain s4 where s4: "main_loop rnd scenario duration 0 ?s3 = Some (?k, s4)"
      "duration \<le> time s4"
      using main_loop_runs [of ?s3 duration ?k rnd scenario 0] by auto
    let ?s5 = "s4\<lparr>stdout := stdout s4 @ [Separator, TestComplete ?k]\<rparr>"
    obtain s6 where s6: "print_final_statistics ?s5 = Inr s6" "time s6 = time ?s5"
      using print_final_statistics_returns [of ?s5] by blast
    from pos s4(1) s6(1)
    have "run_test_scenario rnd scenario duration s = Some (Inr s6)"
      by (simp add: run_test_scenario_def Let_def)
    with s4(2) s6(2)
    have "\<exists>s'. run_test_scenario rnd scenario duration s = Some (Inr s') \<and>
            duration \<le> time s'"
      by simp
    with returns show ?thesis by blast
  qed
  from step exit runs show ?thesis
    by (simp add: check_keeps)
qed

theorem check_never_halts_witness:
  "0 < dt (HILSimulator 0.5) \<and> time (HILSimulator 0.5) < 10 \<and>
   main_loop (\<lambda>k. zero_noise) ''RDV'' 10 0 (HILSimulator 0.5) =
     main_loop (\<lambda>k. zero_noise) ''RDV'' 10 1 (tick zero_noise ''RDV'' 0 (HILSimulator 0.5)) \<and>
   (\<exists>y. main_loop (\<lambda>k. zero_noise) ''RDV'' 10 0 (HILSimulator 0.5) = Some y \<and>
        10 \<le> time (snd y) \<and> length (test_log (snd y)) = fst y) \<and>
   (\<exists>s'. run_test_scenario (\<lambda>k. zero_noise) ''RDV'' 10 (HILSimulator 0.5) = Some (Inr s') \<and>
         10 \<le> time s')"
proof -
  note run = check_never_halts [where s = "HILSimulator 0.5" and rnd = "\<lambda>k. zero_noise"
      and scenario = "''RDV''" and duration = 10 and i = 0]
  have h: "0 < dt (HILSimulator 0.5)" "time (HILSimulator 0.5) < 10"
    and empty: "test_log (HILSimulator 0.5) = []"
    by (simp_all add: HILSimulator_def initialize_state_def)
  from run h(2)
  have step: "main_loop (\<lambda>k. zero_noise) ''RDV'' 10 0 (HILSimulator 0.5) =
     main_loop (\<lambda>k. zero_noise) ''RDV'' 10 1 (tick zero_noise ''RDV'' 0 (HILSimulator 0.5))"
    by simp
  from run have exit: "\<forall>y. main_loop (\<lambda>k. zero_noise) ''RDV'' 10 0 (HILSimulator 0.5) = Some y \<longrightarrow>
      10 \<le> time (snd y) \<and> 0 \<le> fst y \<and>
      length (test_log (snd y)) = length (test_log (HILSimulator 0.5)) + (fst y - 0)"
    by blast
  from run h(1) obtain y where
    y: "main_loop (\<lambda>k. zero_noise) ''RDV'' 10 0 (HILSimulator 0.5) = Some y"
    by blast
  with exit have "10 \<le> time (snd y) \<and>
      length (test_log (snd y)) = length (test_log (HILSimulator 0.5)) + (fst y - 0)"
    by blast
  with empty have "10 \<le> time (snd y)" "length (test_log (snd y)) = fst y"
    by simp_all
  with y have loop: "\<exists>y. main_loop (\<lambda>k. zero_noise) ''RDV'' 10 0 (HILSimulator 0.5) = Some y \<and>
        10 \<le> time (snd y) \<and> length (test_log (snd y)) = fst y"
    by blast
  from run h(1)
  have "\<exists>s'. run_test_scenario (\<lambda>k. zero_noise) ''RDV'' 10 (HILSimulator 0.5) = Some (Inr s') \<and>
         10 \<le> time s'"
    by blast
  with h step loop show ?thesis by blast
qed

text \<open>
  C9. In each of the five placeholder modules, \<^verbatim>\<open>calculate\<close> returns its input
  unchanged and \<^verbatim>\<open>validate\<close> returns true exactly when its input is not
  \<^verbatim>\<open>None\<close>.
\<close>

theorem placeholders_identity:
  "MissionParameters_calculate x = x \<and> MissionParameters_validate x = (x \<noteq> None) \<and>
   OrbitalMechanics_calculate x = x \<and> OrbitalMechanics_validate x = (x \<noteq> None) \<and>
   TrajectoryOptimizer_calculate x = x \<and> TrajectoryOptimizer_validate x = (x \<noteq> None) \<and>
   DataProcessing_calculate x = x \<and> DataProcessing_validate x = (x \<noteq> None) \<and>
   VisualizationTools_calculate x = x \<and> VisualizationTools_validate x = (x \<noteq> None)"
  by (simp add: MissionParameters_calculate_def MissionParameters_validate_def
      OrbitalMechanics_calculate_def OrbitalMechanics_validate_def
      TrajectoryOptimizer_calculate_def TrajectoryOptimizer_validate_def
      DataProcessing_calculate_def DataProcessing_validate_def
      VisualizationTools_calculate_def VisualizationTools_validate_def)

theorem placeholders_identity_witness:
  "MissionParameters_calculate (Some [1, 2, 3 :: int]) = Some [1, 2, 3] \<and>
   MissionParameters_validate (Some [1, 2, 3 :: int]) \<and>
   DataProcessing_calculate (None :: int list option) = None \<and>
   \<not> DataProcessing_validate (None :: int list option)"
  using placeholders_identity [of "Some [1, 2, 3 :: int]"]
    placeholders_identity [of "None :: int list option"]
  by simp

text \<open>
  C10. With an empty log the final report returns at once, printing nothing and raising
  nothing; and the report never raises, for any simulator: the last-entry read, the
  means and the maxima, each an error on an empty list, are only reached with a
  non-empty log.
\<close>

theorem print_final_statistics_guard:
  "(test_log s = [] \<longrightarrow> print_final_statistics s = Inr s) \<and>
   (\<exists>s'. print_final_statistics s = Inr s') \<and>
   last_entry ([] :: log_entry list) = Inl IndexError \<and>
   np_mean [] = Inl MeanOfEmptySlice \<and> np_max [] = Inl ValueError"
  using print_final_statistics_returns [of s]
  by (auto simp add: print_final_statistics_def last_entry_def np_mean_def np_max_def)

theorem print_final_statistics_guard_witness:
  "test_log (HILSimulator 0.1) = [] \<and>
   print_final_statistics (HILSimulator 0.1) = Inr (HILSimulator 0.1)"
  using print_final_statistics_guard [of "HILSimulator 0.1"]
  by (simp add: HILSimulator_def initialize_state_def)

end
